theory Spec2Isabelle
  imports Main "HOL-Library.Word"
begin

unbundle bit_operations_syntax

section \<open>Bytes and 32-bit words\<close>

type_synonym byte = "8 word"
type_synonym u32 = "32 word"

definition le32enc :: "u32 \<Rightarrow> byte list" where
  "le32enc w = [ucast w, ucast (drop_bit 8 w), ucast (drop_bit 16 w), ucast (drop_bit 24 w)]"

definition be32enc :: "u32 \<Rightarrow> byte list" where
  "be32enc w = [ucast (drop_bit 24 w), ucast (drop_bit 16 w), ucast (drop_bit 8 w), ucast w]"

fun le32dec :: "byte list \<Rightarrow> u32" where
  "le32dec (b0 # b1 # b2 # b3 # bs) =
     ucast b0 OR push_bit 8 (ucast b1) OR push_bit 16 (ucast b2) OR push_bit 24 (ucast b3)"
| "le32dec bs = 0"

fun be32dec :: "byte list \<Rightarrow> u32" where
  "be32dec (b0 # b1 # b2 # b3 # bs) =
     push_bit 24 (ucast b0) OR push_bit 16 (ucast b1) OR push_bit 8 (ucast b2) OR ucast b3"
| "be32dec bs = 0"

text \<open>A byte buffer read as consecutive little-endian 32-bit words (a trailing group of
  fewer than four bytes holds no word), and the words written back.\<close>

fun le_words :: "byte list \<Rightarrow> u32 list" where
  "le_words (b0 # b1 # b2 # b3 # bs) = le32dec [b0, b1, b2, b3] # le_words bs"
| "le_words bs = []"

fun be_words :: "byte list \<Rightarrow> u32 list" where
  "be_words (b0 # b1 # b2 # b3 # bs) = be32dec [b0, b1, b2, b3] # be_words bs"
| "be_words bs = []"

definition le_bytes :: "u32 list \<Rightarrow> byte list" where
  "le_bytes ws = concat (map le32enc ws)"

definition xor_bytes :: "byte list \<Rightarrow> byte list \<Rightarrow> byte list" where
  "xor_bytes xs ys = map2 (XOR) xs ys"

definition xor_words :: "u32 list \<Rightarrow> u32 list \<Rightarrow> u32 list" where
  "xor_words xs ys = map2 (XOR) xs ys"

text \<open>Word by word addition modulo \<open>2 ^ 32\<close>.\<close>

definition add_words :: "u32 list \<Rightarrow> u32 list \<Rightarrow> u32 list" where
  "add_words xs ys = map2 (+) xs ys"

section \<open>The scrypt core (scrypt.c, declared by scrypt.h)\<close>

text \<open>
  The wrapper calls \<^verbatim>\<open>scrypt_1024_1_1_256\<close>, which \<^verbatim>\<open>scrypt.h\<close> declares and
  \<^verbatim>\<open>scrypt.c\<close> defines; only the wrapper's file is available. The core is therefore
  modelled from the specification, sections 4.1 to 4.5, with N = 1024, r = 1, p = 1.
\<close>

subsection \<open>Salsa20/8\<close>

text \<open>Modelled from the spec: the Salsa quarter-round of section 4.1 (the core's source file
  is missing): addition, rotation and XOR with the rotation constants 7, 9, 13, 18.\<close>

definition quarterround :: "u32 \<times> u32 \<times> u32 \<times> u32 \<Rightarrow> u32 \<times> u32 \<times> u32 \<times> u32" where
  "quarterround q = (case q of (y0, y1, y2, y3) \<Rightarrow>
     let z1 = y1 XOR word_rotl 7 (y0 + y3);
         z2 = y2 XOR word_rotl 9 (z1 + y0);
         z3 = y3 XOR word_rotl 13 (z2 + z1);
         z0 = y0 XOR word_rotl 18 (z3 + z2)
     in (z0, z1, z2, z3))"

text \<open>Modelled from the spec: a quarter-round applied in place to four cells of the 4x4
  matrix, kept as a list of 16 words in row-major order.\<close>

definition qr_at :: "nat \<Rightarrow> nat \<Rightarrow> nat \<Rightarrow> nat \<Rightarrow> u32 list \<Rightarrow> u32 list" where
  "qr_at a b c d x = (case quarterround (x ! a, x ! b, x ! c, x ! d) of
     (za, zb, zc, zd) \<Rightarrow> x[a := za, b := zb, c := zc, d := zd])"

text \<open>Modelled from the spec: the column round and the row round of the standard Salsa20
  round function (section 4.1), and the double-round "column rounds then row rounds".\<close>

definition columnround :: "u32 list \<Rightarrow> u32 list" where
  "columnround x = qr_at 15 3 7 11 (qr_at 10 14 2 6 (qr_at 5 9 13 1 (qr_at 0 4 8 12 x)))"

definition rowround :: "u32 list \<Rightarrow> u32 list" where
  "rowround x = qr_at 15 12 13 14 (qr_at 10 11 8 9 (qr_at 5 6 7 4 (qr_at 0 1 2 3 x)))"

definition doubleround :: "u32 list \<Rightarrow> u32 list" where
  "doubleround x = rowround (columnround x)"

text \<open>Modelled from the spec: the Salsa20/8 core of sections 4.1 and 8 (its source file is
  missing): 8 rounds (4 double-rounds) on the block read as 16 little-endian 32-bit words,
  then combined with the input. Section 8 requires the published scrypt vectors to be
  reproduced, so the combination is the one of the Salsa20 core, word by word addition
  modulo \<open>2 ^ 32\<close>; with the XOR of section 4.1's wording the vectors are not reproduced
  (claim C5 below).\<close>

definition salsa20_8_words :: "u32 list \<Rightarrow> u32 list" where
  "salsa20_8_words x = add_words x ((doubleround ^^ 4) x)"

definition salsa20_8 :: "byte list \<Rightarrow> byte list" where
  "salsa20_8 B = le_bytes (salsa20_8_words (le_words B))"

subsection \<open>BlockMix and ROMix\<close>

text \<open>Modelled from the spec: BlockMix of section 4.2 for r = 1 (its source file is
  missing), on exactly two 64-byte blocks: each block is XORed with the previous Salsa20/8
  output, starting from the last block, and run through the core; with two blocks the
  even/odd de-interleaving leaves the order \<open>Y0, Y1\<close>.\<close>

definition BlockMix :: "byte list \<Rightarrow> byte list" where
  "BlockMix B = (let B0 = take 64 B; B1 = take 64 (drop 64 B);
                     Y0 = salsa20_8 (xor_bytes B1 B0);
                     Y1 = salsa20_8 (xor_bytes Y0 B1)
                 in Y0 @ Y1)"

text \<open>Modelled from the spec: Integerify of section 4.3 (its source file is missing),
  "extracts a low-order 32-bit word from B": the first little-endian word of the last
  64-byte block, as in the scrypt construction the specification names.\<close>

definition Integerify :: "byte list \<Rightarrow> nat" where
  "Integerify B = unat (le32dec (take 4 (drop 64 B)))"

text \<open>Modelled from the spec: the fill phase of ROMix (section 4.3, step 1; source file
  missing). The loop \<open>for i = 0 .. N-1: V[i] = B; B = BlockMix(B)\<close> on a table \<open>V\<close> of
  working memory whose contents at entry are whatever the memory held.\<close>

function romix_fill :: "nat \<Rightarrow> nat \<Rightarrow> byte list list \<Rightarrow> byte list \<Rightarrow> byte list list \<times> byte list" where
  "romix_fill i N V B = (if i < N then romix_fill (Suc i) N (V[i := B]) (BlockMix B) else (V, B))"
  by pat_completeness auto
termination
  by (relation "measure (\<lambda>(i, N, V, B). N - i)") auto

declare romix_fill.simps [simp del]

text \<open>Modelled from the spec: one iteration of the mix phase of ROMix (section 4.3,
  step 2; source file missing): \<open>j = Integerify(B) mod N\<close>, XOR \<open>B\<close> with \<open>V[j]\<close>, set
  \<open>B = BlockMix(B)\<close>.\<close>

definition mix_step :: "nat \<Rightarrow> byte list list \<Rightarrow> byte list \<Rightarrow> byte list" where
  "mix_step N V B = (let j = Integerify B mod N in BlockMix (xor_bytes B (V ! j)))"

text \<open>Modelled from the spec: the mix phase, "iterate N times". The first argument counts
  the iterations left.\<close>

fun romix_mix :: "nat \<Rightarrow> nat \<Rightarrow> byte list list \<Rightarrow> byte list \<Rightarrow> byte list" where
  "romix_mix 0 N V B = B"
| "romix_mix (Suc k) N V B = romix_mix k N V (mix_step N V B)"

text \<open>Modelled from the spec: ROMix of section 4.3 (source file missing): the fill phase
  on the working table, then the mix phase of N iterations.\<close>

definition ROMix :: "nat \<Rightarrow> byte list list \<Rightarrow> byte list \<Rightarrow> byte list" where
  "ROMix N V B = (case romix_fill 0 N V B of (V', X) \<Rightarrow> romix_mix N N V' X)"

subsection \<open>Published test vectors\<close>

text \<open>Modelled from the spec: section 8 requires the published scrypt test vectors to be
  reproduced. These are the vectors of RFC 7914 for the Salsa20/8 core (its section 8)
  and for BlockMix with r = 1 (its section 9).\<close>

definition rfc7914_salsa_in :: "byte list" where
  "rfc7914_salsa_in =
    [0x7e, 0x87, 0x9a, 0x21, 0x4f, 0x3e, 0xc9, 0x86, 0x7c, 0xa9, 0x40, 0xe6, 0x41, 0x71, 0x8f, 0x26,
     0xba, 0xee, 0x55, 0x5b, 0x8c, 0x61, 0xc1, 0xb5, 0x0d, 0xf8, 0x46, 0x11, 0x6d, 0xcd, 0x3b, 0x1d,
     0xee, 0x24, 0xf3, 0x19, 0xdf, 0x9b, 0x3d, 0x85, 0x14, 0x12, 0x1e, 0x4b, 0x5a, 0xc5, 0xaa, 0x32,
     0x76, 0x02, 0x1d, 0x29, 0x09, 0xc7, 0x48, 0x29, 0xed, 0xeb, 0xc6, 0x8d, 0xb8, 0xb8, 0xc2, 0x5e]"

definition rfc7914_salsa_out :: "byte list" where
  "rfc7914_salsa_out =
    [0xa4, 0x1f, 0x85, 0x9c, 0x66, 0x08, 0xcc, 0x99, 0x3b, 0x81, 0xca, 0xcb, 0x02, 0x0c, 0xef, 0x05,
     0x04, 0x4b, 0x21, 0x81, 0xa2, 0xfd, 0x33, 0x7d, 0xfd, 0x7b, 0x1c, 0x63, 0x96, 0x68, 0x2f, 0x29,
     0xb4, 0x39, 0x31, 0x68, 0xe3, 0xc9, 0xe6, 0xbc, 0xfe, 0x6b, 0xc5, 0xb7, 0xa0, 0x6d, 0x96, 0xba,
     0xe4, 0x24, 0xcc, 0x10, 0x2c, 0x91, 0x74, 0x5c, 0x24, 0xad, 0x67, 0x3d, 0xc7, 0x61, 0x8f, 0x81]"

definition rfc7914_blockmix_in :: "byte list" where
  "rfc7914_blockmix_in =
    [0xf7, 0xce, 0x0b, 0x65, 0x3d, 0x2d, 0x72, 0xa4, 0x10, 0x8c, 0xf5, 0xab, 0xe9, 0x12, 0xff, 0xdd,
     0x77, 0x76, 0x16, 0xdb, 0xbb, 0x27, 0xa7, 0x0e, 0x82, 0x04, 0xf3, 0xae, 0x2d, 0x0f, 0x6f, 0xad,
     0x89, 0xf6, 0x8f, 0x48, 0x11, 0xd1, 0xe8, 0x7b, 0xcc, 0x3b, 0xd7, 0x40, 0x0a, 0x9f, 0xfd, 0x29,
     0x09, 0x4f, 0x01, 0x84, 0x63, 0x95, 0x74, 0xf3, 0x9a, 0xe5, 0xa1, 0x31, 0x52, 0x17, 0xbc, 0xd7,
     0x89, 0x49, 0x91, 0x44, 0x72, 0x13, 0xbb, 0x22, 0x6c, 0x25, 0xb5, 0x4d, 0xa8, 0x63, 0x70, 0xfb,
     0xcd, 0x98, 0x43, 0x80, 0x37, 0x46, 0x66, 0xbb, 0x8f, 0xfc, 0xb5, 0xbf, 0x40, 0xc2, 0x54, 0xb0,
     0x67, 0xd2, 0x7c, 0x51, 0xce, 0x4a, 0xd5, 0xfe, 0xd8, 0x29, 0xc9, 0x0b, 0x50, 0x5a, 0x57, 0x1b,
     0x7f, 0x4d, 0x1c, 0xad, 0x6a, 0x52, 0x3c, 0xda, 0x77, 0x0e, 0x67, 0xbc, 0xea, 0xaf, 0x7e, 0x89]"

definition rfc7914_blockmix_out :: "byte list" where
  "rfc7914_blockmix_out =
    [0xa4, 0x1f, 0x85, 0x9c, 0x66, 0x08, 0xcc, 0x99, 0x3b, 0x81, 0xca, 0xcb, 0x02, 0x0c, 0xef, 0x05,
     0x04, 0x4b, 0x21, 0x81, 0xa2, 0xfd, 0x33, 0x7d, 0xfd, 0x7b, 0x1c, 0x63, 0x96, 0x68, 0x2f, 0x29,
     0xb4, 0x39, 0x31, 0x68, 0xe3, 0xc9, 0xe6, 0xbc, 0xfe, 0x6b, 0xc5, 0xb7, 0xa0, 0x6d, 0x96, 0xba,
     0xe4, 0x24, 0xcc, 0x10, 0x2c, 0x91, 0x74, 0x5c, 0x24, 0xad, 0x67, 0x3d, 0xc7, 0x61, 0x8f, 0x81,
     0x20, 0xed, 0xc9, 0x75, 0x32, 0x38, 0x81, 0xa8, 0x05, 0x40, 0xf6, 0x4c, 0x16, 0x2d, 0xcd, 0x3c,
     0x21, 0x07, 0x7c, 0xfe, 0x5f, 0x8d, 0x5f, 0xe2, 0xb1, 0xa4, 0x16, 0x8f, 0x95, 0x36, 0x78, 0xb7,
     0x7d, 0x3b, 0x3d, 0x80, 0x3b, 0x60, 0xe4, 0xab, 0x92, 0x09, 0x96, 0xe5, 0x9b, 0x4d, 0x53, 0xb6,
     0x5d, 0x2a, 0x22, 0x58, 0x77, 0xd5, 0xed, 0xf5, 0x84, 0x2c, 0xb9, 0xf1, 0x4e, 0xef, 0xe4, 0x25]"

subsection \<open>SHA-256, HMAC and PBKDF2\<close>

text \<open>Modelled from the spec: SHA-256, the hash function that section 4.4 names as the
  pseudorandom function's basis (its source file is missing), as FIPS 180-4 defines it. The round constants are the first 32 bits of the fractional
  parts of the cube roots of the first 64 primes, the initial state those of the square
  roots of the first 8 primes; both are written in decimal.\<close>

definition sha256_K :: "u32 list" where
  "sha256_K =
    [1116352408, 1899447441, 3049323471, 3921009573, 961987163,
     1508970993, 2453635748, 2870763221, 3624381080, 310598401,
     607225278, 1426881987, 1925078388, 2162078206, 2614888103,
     3248222580, 3835390401, 4022224774, 264347078, 604807628,
     770255983, 1249150122, 1555081692, 1996064986, 2554220882,
     2821834349, 2952996808, 3210313671, 3336571891, 3584528711,
     113926993, 338241895, 666307205, 773529912, 1294757372,
     1396182291, 1695183700, 1986661051, 2177026350, 2456956037,
     2730485921, 2820302411, 3259730800, 3345764771, 3516065817,
     3600352804, 4094571909, 275423344, 430227734, 506948616,
     659060556, 883997877, 958139571, 1322822218, 1537002063,
     1747873779, 1955562222, 2024104815, 2227730452, 2361852424,
     2428436474, 2756734187, 3204031479, 3329325298]"

type_synonym sha_state = "u32 \<times> u32 \<times> u32 \<times> u32 \<times> u32 \<times> u32 \<times> u32 \<times> u32"

definition sha256_H0 :: sha_state where
  "sha256_H0 = (1779033703, 3144134277, 1013904242, 2773480762,
                1359893119, 2600822924, 528734635, 1541459225)"

definition Ch :: "u32 \<Rightarrow> u32 \<Rightarrow> u32 \<Rightarrow> u32" where
  "Ch x y z = (x AND y) XOR (NOT x AND z)"

definition Maj :: "u32 \<Rightarrow> u32 \<Rightarrow> u32 \<Rightarrow> u32" where
  "Maj x y z = (x AND y) XOR (x AND z) XOR (y AND z)"

definition Sigma0 :: "u32 \<Rightarrow> u32" where
  "Sigma0 x = word_rotr 2 x XOR word_rotr 13 x XOR word_rotr 22 x"

definition Sigma1 :: "u32 \<Rightarrow> u32" where
  "Sigma1 x = word_rotr 6 x XOR word_rotr 11 x XOR word_rotr 25 x"

definition sigma0 :: "u32 \<Rightarrow> u32" where
  "sigma0 x = word_rotr 7 x XOR word_rotr 18 x XOR drop_bit 3 x"

definition sigma1 :: "u32 \<Rightarrow> u32" where
  "sigma1 x = word_rotr 17 x XOR word_rotr 19 x XOR drop_bit 10 x"

definition sha256_sched_step :: "u32 list \<Rightarrow> u32 list" where
  "sha256_sched_step W = (let t = length W in
     W @ [sigma1 (W ! (t - 2)) + W ! (t - 7) + sigma0 (W ! (t - 15)) + W ! (t - 16)])"

definition sha256_schedule :: "byte list \<Rightarrow> u32 list" where
  "sha256_schedule blk = (sha256_sched_step ^^ 48) (be_words blk)"

definition sha256_round :: "u32 \<times> u32 \<Rightarrow> sha_state \<Rightarrow> sha_state" where
  "sha256_round kw s = (case kw of (k, w) \<Rightarrow> case s of (a, b, c, d, e, f, g, h) \<Rightarrow>
     let T1 = h + Sigma1 e + Ch e f g + k + w;
         T2 = Sigma0 a + Maj a b c
     in (T1 + T2, a, b, c, d + T1, e, f, g))"

definition sha256_add :: "sha_state \<Rightarrow> sha_state \<Rightarrow> sha_state" where
  "sha256_add s t = (case s of (a, b, c, d, e, f, g, h) \<Rightarrow>
     case t of (a', b', c', d', e', f', g', h') \<Rightarrow>
       (a + a', b + b', c + c', d + d', e + e', f + f', g + g', h + h'))"

definition sha256_compress :: "byte list \<Rightarrow> sha_state \<Rightarrow> sha_state" where
  "sha256_compress blk s = sha256_add s (fold sha256_round (zip sha256_K (sha256_schedule blk)) s)"

definition be64enc :: "64 word \<Rightarrow> byte list" where
  "be64enc w = map (\<lambda>i. ucast (drop_bit (8 * (7 - i)) w)) [0..<8]"

definition sha256_pad :: "byte list \<Rightarrow> byte list" where
  "sha256_pad m = m @ [0x80] @ replicate ((64 - (length m + 9) mod 64) mod 64) 0
                    @ be64enc (of_nat (8 * length m))"

function chunks :: "nat \<Rightarrow> 'a list \<Rightarrow> 'a list list" where
  "chunks n xs = (if n = 0 \<or> xs = [] then [] else take n xs # chunks n (drop n xs))"
  by pat_completeness auto
termination
  by (relation "measure (\<lambda>(n, xs). length xs)") auto

declare chunks.simps [simp del]

definition sha256_digest :: "sha_state \<Rightarrow> byte list" where
  "sha256_digest s = (case s of (a, b, c, d, e, f, g, h) \<Rightarrow>
     concat (map be32enc [a, b, c, d, e, f, g, h]))"

definition SHA256 :: "byte list \<Rightarrow> byte list" where
  "SHA256 m = sha256_digest (fold sha256_compress (chunks 64 (sha256_pad m)) sha256_H0)"

text \<open>Modelled from the spec: HMAC with SHA-256 (section 4.4; source file missing), as
  RFC 2104 defines it: block size 64, a longer key is hashed first.\<close>

definition hmac_key :: "byte list \<Rightarrow> byte list" where
  "hmac_key K = (let K' = (if length K > 64 then SHA256 K else K)
                 in K' @ replicate (64 - length K') 0)"

definition HMAC_SHA256 :: "byte list \<Rightarrow> byte list \<Rightarrow> byte list" where
  "HMAC_SHA256 K m = (let k = hmac_key K
     in SHA256 (map (\<lambda>b. b XOR 0x5c) k @ SHA256 (map (\<lambda>b. b XOR 0x36) k @ m)))"

text \<open>Modelled from the spec: PBKDF2 of section 4.4 (source file missing), RFC 2898:
  \<open>U1 = PRF(P, S || INT(i))\<close> with the block counter big-endian, \<open>Uj = PRF(P, U(j-1))\<close>,
  block \<open>T(i) = U1 XOR ... XOR Uc\<close>, and the key is the first \<open>dkLen\<close> bytes of
  \<open>T(1) || T(2) || ...\<close>. The loop below runs the iterations 2..c.\<close>

fun pbkdf2_fold :: "byte list \<Rightarrow> nat \<Rightarrow> byte list \<Rightarrow> byte list \<Rightarrow> byte list" where
  "pbkdf2_fold P 0 U T = T"
| "pbkdf2_fold P (Suc k) U T =
     (let U' = HMAC_SHA256 P U in pbkdf2_fold P k U' (xor_bytes T U'))"

definition pbkdf2_F :: "byte list \<Rightarrow> byte list \<Rightarrow> nat \<Rightarrow> nat \<Rightarrow> byte list" where
  "pbkdf2_F P S c i = (let U1 = HMAC_SHA256 P (S @ be32enc (of_nat i))
                       in pbkdf2_fold P (c - 1) U1 U1)"

definition PBKDF2_SHA256 :: "byte list \<Rightarrow> byte list \<Rightarrow> nat \<Rightarrow> nat \<Rightarrow> byte list" where
  "PBKDF2_SHA256 P S c dkLen =
     take dkLen (concat (map (pbkdf2_F P S c) [1..<Suc ((dkLen + 31) div 32)]))"

subsection \<open>The driver\<close>

text \<open>Modelled from the spec: the driver of section 4.5 (source file missing):
  PBKDF2-expand(input, input, 1 iteration, 128 bytes), one ROMix with N = 1024 on the
  working table, PBKDF2-compress(input, B', 1 iteration, 32 bytes). The working table
  has 1024 slots, "allocated fresh per invocation"; \<open>junk i\<close> is what slot \<open>i\<close> holds
  when the table is obtained.\<close>

definition scryptHash :: "(nat \<Rightarrow> byte list) \<Rightarrow> byte list \<Rightarrow> byte list" where
  "scryptHash junk input =
     (let V = map junk [0..<1024];
          B = PBKDF2_SHA256 input input 1 128;
          B' = ROMix 1024 V B
      in PBKDF2_SHA256 input B' 1 32)"

text \<open>Modelled from the spec: \<^verbatim>\<open>scrypt_1024_1_1_256(input, output)\<close> as \<^verbatim>\<open>scrypt.h\<close>
  declares it (the definition is missing): it returns nothing and writes the 32-byte digest
  over the start of the output buffer.\<close>

definition scrypt_1024_1_1_256 :: "(nat \<Rightarrow> byte list) \<Rightarrow> byte list \<Rightarrow> byte list \<Rightarrow> byte list" where
  "scrypt_1024_1_1_256 junk input output =
     (let dk = scryptHash junk input in dk @ drop (length dk) output)"

section \<open>The Python wrapper (scryptmodule_py3.c)\<close>

text \<open>Python objects that can reach the function as arguments. \<open>PyBytes\<close> and
  \<open>PyByteArray\<close> export a contiguous buffer, which is what the format \<^verbatim>\<open>y*\<close> accepts. A
  \<open>memoryview\<close> carries its bytes and two flags, whether it is C-contiguous and whether it
  has been released. A \<open>str\<close>, an \<open>int\<close> and \<open>None\<close> export no buffer.\<close>

datatype pyobj = PyBytes "byte list" | PyByteArray "byte list"
  | PyMemoryView "byte list" bool bool | PyUnicode string | PyLong int | PyNone

datatype pyexc = TypeError | ValueError | BufferError | MemoryError

text \<open>What the wrapper does to the interpreter, in order.\<close>

datatype event = ParseArgs | LenCheck | Release | Raise pyexc | Malloc nat | CoreCall
  | BuildValue | Free

text \<open>The fields of \<^verbatim>\<open>Py_buffer\<close> the wrapper reads.\<close>

record Py_buffer =
  buf :: "byte list"
  len :: int

text \<open>The interpreter state the wrapper acts on: the error indicator, the argument objects
  as the caller holds them, the number of buffer views exported and not yet released, the
  number of live \<^verbatim>\<open>PyMem\<close> blocks, and the trace of what has been done.\<close>

record pystate =
  exc :: "pyexc option"
  objs :: "pyobj list"
  exports :: int
  blocks :: int
  trace :: "event list"

text \<open>What the call cannot control: whether the two allocations succeed, what a fresh
  block holds, and what the core's working table holds when the core obtains it.\<close>

record env =
  malloc_ok :: bool
  heap_junk :: "nat \<Rightarrow> byte"
  build_ok :: bool
  scratch_junk :: "nat \<Rightarrow> byte list"

text \<open>An environment for examples: fresh memory holds zeros, the working table is empty
  slots; the two flags say whether the allocations succeed.\<close>

definition zero_env :: "bool \<Rightarrow> bool \<Rightarrow> env" where
  "zero_env m b = \<lparr>malloc_ok = m, heap_junk = (\<lambda>i. 0), build_ok = b, scratch_junk = (\<lambda>i. [])\<rparr>"

definition init_state :: "pyobj list \<Rightarrow> pystate" where
  "init_state args = \<lparr>exc = None, objs = args, exports = 0, blocks = 0, trace = []\<rparr>"

definition emit :: "event \<Rightarrow> pystate \<Rightarrow> pystate" where
  "emit ev s = s\<lparr>trace := trace s @ [ev]\<rparr>"

text \<open>What a request for a simple contiguous buffer gives: the bytes, or the exception the
  object raises. A released \<open>memoryview\<close> raises \<open>ValueError\<close>, one that is not
  C-contiguous raises \<open>BufferError\<close>, an object without the buffer protocol is a
  \<open>TypeError\<close>.\<close>

fun buffer_of :: "pyobj \<Rightarrow> pyexc + byte list" where
  "buffer_of (PyBytes bs) = Inr bs"
| "buffer_of (PyByteArray bs) = Inr bs"
| "buffer_of (PyMemoryView bs contiguous released) =
     (if released then Inl ValueError else if contiguous then Inr bs else Inl BufferError)"
| "buffer_of other = Inl TypeError"

text \<open>The format \<^verbatim>\<open>y*\<close>: exactly one argument (any other number is a \<open>TypeError\<close>), and
  it exports a buffer.\<close>

definition parse_args :: "pyobj list \<Rightarrow> pyexc + byte list" where
  "parse_args args = (case args of [ob] \<Rightarrow> buffer_of ob | other \<Rightarrow> Inl TypeError)"

text \<open>The buffer that parsing yields, when it succeeds.\<close>

definition parse_ystar :: "pyobj list \<Rightarrow> byte list option" where
  "parse_ystar args = (case parse_args args of Inr bs \<Rightarrow> Some bs | Inl e \<Rightarrow> None)"

text \<open>\<^verbatim>\<open>PyArg_ParseTuple(args, "y*", &input)\<close>: on success the buffer view is filled in
  and the object has one more export; otherwise the call leaves the exception set and
  returns 0.\<close>

definition PyArg_ParseTuple :: "pystate \<Rightarrow> Py_buffer option \<times> pystate" where
  "PyArg_ParseTuple s =
     (case parse_args (objs s) of
        Inr bs \<Rightarrow> (Some \<lparr>buf = bs, len = int (length bs)\<rparr>,
                   emit ParseArgs (s\<lparr>exports := exports s + 1\<rparr>))
      | Inl e \<Rightarrow> (None, emit ParseArgs (s\<lparr>exc := Some e\<rparr>)))"

definition check_len :: "Py_buffer \<Rightarrow> pystate \<Rightarrow> bool \<times> pystate" where
  "check_len input s = (len input \<noteq> 80, emit LenCheck s)"

definition PyBuffer_Release :: "pystate \<Rightarrow> pystate" where
  "PyBuffer_Release s = emit Release (s\<lparr>exports := exports s - 1\<rparr>)"

definition PyErr_SetString :: "pyexc \<Rightarrow> pystate \<Rightarrow> pystate" where
  "PyErr_SetString e s = emit (Raise e) (s\<lparr>exc := Some e\<rparr>)"

definition PyErr_NoMemory :: "pystate \<Rightarrow> byte list option \<times> pystate" where
  "PyErr_NoMemory s = (None, emit (Raise MemoryError) (s\<lparr>exc := Some MemoryError\<rparr>))"

definition PyMem_Malloc :: "env \<Rightarrow> nat \<Rightarrow> pystate \<Rightarrow> byte list option \<times> pystate" where
  "PyMem_Malloc e n s =
     (if malloc_ok e then (Some (map (heap_junk e) [0..<n]), emit (Malloc n) (s\<lparr>blocks := blocks s + 1\<rparr>))
      else (None, emit (Malloc n) s))"

definition PyMem_Free :: "pystate \<Rightarrow> pystate" where
  "PyMem_Free s = emit Free (s\<lparr>blocks := blocks s - 1\<rparr>)"

definition call_scrypt :: "env \<Rightarrow> byte list \<Rightarrow> byte list \<Rightarrow> pystate \<Rightarrow> byte list \<times> pystate" where
  "call_scrypt e input output s = (scrypt_1024_1_1_256 (scratch_junk e) input output, emit CoreCall s)"

text \<open>\<^verbatim>\<open>Py_BuildValue("y#", output, 32)\<close>: a new bytes object holding the first \<open>n\<close> bytes
  of the block, or NULL with \<open>MemoryError\<close> when the object cannot be allocated.\<close>

definition Py_BuildValue :: "env \<Rightarrow> byte list \<Rightarrow> nat \<Rightarrow> pystate \<Rightarrow> byte list option \<times> pystate" where
  "Py_BuildValue e output n s =
     (if build_ok e then (Some (take n output), emit BuildValue s)
      else (None, emit BuildValue (s\<lparr>exc := Some MemoryError\<rparr>)))"

text \<open>The function itself, statement by statement. The result is the returned object
  (\<open>None\<close> for NULL) and the interpreter state at return.\<close>

definition scrypt_getpowhash :: "env \<Rightarrow> pyobj list \<Rightarrow> byte list option \<times> pystate" where
  "scrypt_getpowhash e args =
     (case PyArg_ParseTuple (init_state args) of
        (None, s1) \<Rightarrow> (None, s1)
      | (Some input, s1) \<Rightarrow>
          (case check_len input s1 of
             (True, s2) \<Rightarrow> (None, PyErr_SetString ValueError (PyBuffer_Release s2))
           | (False, s2) \<Rightarrow>
               (case PyMem_Malloc e 32 s2 of
                  (None, s3) \<Rightarrow> PyErr_NoMemory (PyBuffer_Release s3)
                | (Some output, s3) \<Rightarrow>
                    (case call_scrypt e (buf input) output s3 of
                       (output', s4) \<Rightarrow>
                         (case Py_BuildValue e output' 32 (PyBuffer_Release s4) of
                            (val, s5) \<Rightarrow> (val, PyMem_Free s5))))))"

section \<open>Facts about the encodings\<close>

lemma length_le32enc: "length (le32enc w) = 4"
  by (simp add: le32enc_def)

lemma length_be32enc: "length (be32enc w) = 4"
  by (simp add: be32enc_def)

lemma le32dec_le32enc: "le32dec (le32enc w) = w"
  unfolding le32enc_def
  apply simp
  apply (rule bit_word_eqI)
  subgoal for n
    by (cases "n < 8"; cases "n < 16"; cases "n < 24")
       (auto simp: bit_simps not_less)
  done


lemma le_words_le_bytes: "le_words (le_bytes ws) = ws"
proof (induction ws)
  case Nil
  then show ?case by (simp add: le_bytes_def)
next
  case (Cons w ws)
  have "le_bytes (w # ws) = le32enc w @ le_bytes ws"
    by (simp add: le_bytes_def)
  moreover have "le_words (le32enc w @ bs) = le32dec (le32enc w) # le_words bs" for bs
    by (simp add: le32enc_def)
  ultimately show ?case
    using Cons by (simp add: le32dec_le32enc)
qed

lemma length_le_bytes: "length (le_bytes ws) = 4 * length ws"
  by (induction ws) (simp_all add: le_bytes_def length_le32enc)

lemma length_le_words: "length (le_words bs) = length bs div 4"
  by (induction bs rule: le_words.induct) simp_all


lemma xor_bytes_nth:
  "length xs = length ys \<Longrightarrow> i < length xs \<Longrightarrow> xor_bytes xs ys ! i = xs ! i XOR ys ! i"
  by (simp add: xor_bytes_def)

lemma length_xor_bytes: "length xs = length ys \<Longrightarrow> length (xor_bytes xs ys) = length xs"
  by (simp add: xor_bytes_def)

text \<open>A rotation is two shifts; in this form it computes on numerals.\<close>

lemma rotl32:
  fixes w :: u32
  assumes "0 < n" and "n < 32"
  shows "word_rotl n w = push_bit n w OR drop_bit (32 - n) w"
proof (rule bit_word_eqI)
  fix k
  assume k: "k < LENGTH(32)"
  show "bit (word_rotl n w) k = bit (push_bit n w OR drop_bit (32 - n) w) k"
  proof (cases "k < n")
    case True
    then have m: "(k + (32 - n)) mod 32 = 32 - n + k"
      using assms by simp
    show ?thesis
      using True k assms by (simp add: bit_simps m) (simp add: add.commute)
  next
    case False
    have e: "k + (32 - n) = 32 + (k - n)"
      using False assms by simp
    have "(32 + (k - n)) mod 32 = (k - n) mod 32"
      by (simp only: mod_add_self1)
    also have "\<dots> = k - n"
      using k by simp
    finally have m: "(k + (32 - n)) mod 32 = k - n"
      by (simp only: e)
    have "k + 32 - n = k + (32 - n)"
      using assms by simp
    with m have m': "(k + 32 - n) mod 32 = k - n"
      by (simp only:)
    have "\<not> bit w (32 - n + k)"
      using False assms bit_imp_le_length [of w "32 - n + k"] by auto
    then show ?thesis
      using False k assms by (simp add: bit_simps m m')
  qed
qed

lemma rotr32:
  fixes w :: u32
  assumes "0 < n" and "n < 32"
  shows "word_rotr n w = drop_bit n w OR push_bit (32 - n) w"
proof -
  have "word_rotl (32 - n) w = word_rotr n w"
    using assms by (simp add: word_rotl_eq_word_rotr)
  then show ?thesis
    using rotl32 [of "32 - n" w] assms by (simp add: or.commute)
qed

section \<open>Salsa20/8\<close>

text \<open>The quarter-round on the first two examples of the Salsa20 specification.\<close>

lemma quarterround_example_1:
  "quarterround (1, 0, 0, 0) = (0x08008145, 0x00000080, 0x00010200, 0x20500000)"
  by code_simp

lemma quarterround_example_2:
  "quarterround (0, 1, 0, 0) = (0x88000100, 0x00000001, 0x00000200, 0x00402000)"
  by code_simp

lemma quarterround_arx:
  "quarterround (y0, y1, y2, y3) = (z0, z1, z2, z3) \<longleftrightarrow>
     z1 = y1 XOR word_rotl 7 (y0 + y3) \<and>
     z2 = y2 XOR word_rotl 9 (z1 + y0) \<and>
     z3 = y3 XOR word_rotl 13 (z2 + z1) \<and>
     z0 = y0 XOR word_rotl 18 (z3 + z2)"
  by (auto simp: quarterround_def Let_def)

lemma length_qr_at: "length (qr_at a b c d x) = length x"
  by (simp add: qr_at_def split: prod.splits)

lemma length_doubleround: "length (doubleround x) = length x"
  by (simp add: doubleround_def rowround_def columnround_def length_qr_at)

lemma length_funpow_doubleround: "length ((doubleround ^^ n) x) = length x"
  by (induction n) (simp_all add: length_doubleround)

text \<open>The in-place quarter-rounds touch disjoint cells, so a round is the four
  quarter-rounds of the matrix side by side: down the columns, starting on the diagonal,
  and along the rows, starting on the diagonal.\<close>

lemma columnround_matrix:
  "columnround [x0, x1, x2, x3, x4, x5, x6, x7, x8, x9, x10, x11, x12, x13, x14, x15] =
    (case quarterround (x0, x4, x8, x12) of (z0, z4, z8, z12) \<Rightarrow>
     case quarterround (x5, x9, x13, x1) of (z5, z9, z13, z1) \<Rightarrow>
     case quarterround (x10, x14, x2, x6) of (z10, z14, z2, z6) \<Rightarrow>
     case quarterround (x15, x3, x7, x11) of (z15, z3, z7, z11) \<Rightarrow>
       [z0, z1, z2, z3, z4, z5, z6, z7, z8, z9, z10, z11, z12, z13, z14, z15])"
  by (simp add: columnround_def qr_at_def split: prod.splits)

lemma rowround_matrix:
  "rowround [x0, x1, x2, x3, x4, x5, x6, x7, x8, x9, x10, x11, x12, x13, x14, x15] =
    (case quarterround (x0, x1, x2, x3) of (z0, z1, z2, z3) \<Rightarrow>
     case quarterround (x5, x6, x7, x4) of (z5, z6, z7, z4) \<Rightarrow>
     case quarterround (x10, x11, x8, x9) of (z10, z11, z8, z9) \<Rightarrow>
     case quarterround (x15, x12, x13, x14) of (z15, z12, z13, z14) \<Rightarrow>
       [z0, z1, z2, z3, z4, z5, z6, z7, z8, z9, z10, z11, z12, z13, z14, z15])"
  by (simp add: rowround_def qr_at_def split: prod.splits)

lemma eight_rounds:
  "(doubleround ^^ 4) x =
     rowround (columnround (rowround (columnround (rowround (columnround
       (rowround (columnround x)))))))"
  by (simp add: numeral_eq_Suc doubleround_def funpow_swap1)

lemma length_salsa20_8: "length (salsa20_8 B) = 4 * (length B div 4)"
  by (simp add: salsa20_8_def salsa20_8_words_def add_words_def length_le_bytes
      length_funpow_doubleround length_le_words)

lemma le_words_salsa20_8:
  "le_words (salsa20_8 B) = add_words (le_words B) ((doubleround ^^ 4) (le_words B))"
  by (simp add: salsa20_8_def salsa20_8_words_def le_words_le_bytes)

text \<open>To check a round on given words, check its four quarter-rounds.\<close>

lemma columnround_check:
  assumes "quarterround (x0, x4, x8, x12) = (z0, z4, z8, z12)"
    and "quarterround (x5, x9, x13, x1) = (z5, z9, z13, z1)"
    and "quarterround (x10, x14, x2, x6) = (z10, z14, z2, z6)"
    and "quarterround (x15, x3, x7, x11) = (z15, z3, z7, z11)"
  shows "columnround [x0, x1, x2, x3, x4, x5, x6, x7, x8, x9, x10, x11, x12, x13, x14, x15]
       = [z0, z1, z2, z3, z4, z5, z6, z7, z8, z9, z10, z11, z12, z13, z14, z15]"
  by (simp add: columnround_matrix assms)

lemma rowround_check:
  assumes "quarterround (x0, x1, x2, x3) = (z0, z1, z2, z3)"
    and "quarterround (x5, x6, x7, x4) = (z5, z6, z7, z4)"
    and "quarterround (x10, x11, x8, x9) = (z10, z11, z8, z9)"
    and "quarterround (x15, x12, x13, x14) = (z15, z12, z13, z14)"
  shows "rowround [x0, x1, x2, x3, x4, x5, x6, x7, x8, x9, x10, x11, x12, x13, x14, x15]
       = [z0, z1, z2, z3, z4, z5, z6, z7, z8, z9, z10, z11, z12, z13, z14, z15]"
  by (simp add: rowround_matrix assms)

text \<open>The rounds of the core on the Salsa20/8 vector of RFC 7914, one by one.\<close>

lemma salsa_vector_round_1:
  "columnround
    [0x219a877e, 0x86c93e4f, 0xe640a97c, 0x268f7141, 0x5b55eeba, 0xb5c1618c, 0x1146f80d, 0x1d3bcd6d,
     0x19f324ee, 0x853d9bdf, 0x4b1e1214, 0x32aac55a, 0x291d0276, 0x2948c709, 0x8dc6ebed, 0x5ec2b8b8] =
    [0x08857f83, 0xbc4dffa4, 0x225a0768, 0x90307809, 0x0091149f, 0xc3e54d59, 0xd113843e, 0xfb5a4eb0,
     0x4ecb1eaa, 0xc0727641, 0x6585dfa2, 0x6a7df42b, 0xaf742b9d, 0x4ee75de5, 0xbf43fb43, 0x55af2fd9]"
  by (rule columnround_check; simp add: quarterround_arx rotl32)

lemma salsa_vector_round_2:
  "rowround
    [0x08857f83, 0xbc4dffa4, 0x225a0768, 0x90307809, 0x0091149f, 0xc3e54d59, 0xd113843e, 0xfb5a4eb0,
     0x4ecb1eaa, 0xc0727641, 0x6585dfa2, 0x6a7df42b, 0xaf742b9d, 0x4ee75de5, 0xbf43fb43, 0x55af2fd9] =
    [0x482665b1, 0xe6b639e8, 0x5528d0b6, 0x7163bf72, 0x93580e01, 0x0c50b5fd, 0xea23785c, 0xead125ec,
     0xf701a95d, 0xd590a7ea, 0x209aedeb, 0x965705b9, 0xd6e1a597, 0x6f4dbdbc, 0x53299386, 0x10a42604]"
  by (rule rowround_check; simp add: quarterround_arx rotl32)

lemma salsa_vector_round_3:
  "columnround
    [0x482665b1, 0xe6b639e8, 0x5528d0b6, 0x7163bf72, 0x93580e01, 0x0c50b5fd, 0xea23785c, 0xead125ec,
     0xf701a95d, 0xd590a7ea, 0x209aedeb, 0x965705b9, 0xd6e1a597, 0x6f4dbdbc, 0x53299386, 0x10a42604] =
    [0xb4cf7248, 0xb8e79720, 0x3e130cef, 0x0cf661a1, 0x175daa0e, 0xde3bd4f1, 0x5dbd3119, 0xdfde6fd7,
     0xff1ed7e2, 0x56e75513, 0xd8b882ab, 0x0c781823, 0x46dfa758, 0x1f5b9d7a, 0x0c1ab003, 0x0f4f975e]"
  by (rule columnround_check; simp add: quarterround_arx rotl32)

lemma salsa_vector_round_4:
  "rowround
    [0xb4cf7248, 0xb8e79720, 0x3e130cef, 0x0cf661a1, 0x175daa0e, 0xde3bd4f1, 0x5dbd3119, 0xdfde6fd7,
     0xff1ed7e2, 0x56e75513, 0xd8b882ab, 0x0c781823, 0x46dfa758, 0x1f5b9d7a, 0x0c1ab003, 0x0f4f975e] =
    [0xe9e67835, 0x5a0e63c0, 0x85bf1cf2, 0xbce03a58, 0x95e02c9d, 0x10a33116, 0x91024ee3, 0xa399c709,
     0x678d68da, 0x70e69077, 0x3dffe364, 0xc393c734, 0xf3fc17d5, 0x8805fb7c, 0x4e709f83, 0x64b0ce84]"
  by (rule rowround_check; simp add: quarterround_arx rotl32)

lemma salsa_vector_round_5:
  "columnround
    [0xe9e67835, 0x5a0e63c0, 0x85bf1cf2, 0xbce03a58, 0x95e02c9d, 0x10a33116, 0x91024ee3, 0xa399c709,
     0x678d68da, 0x70e69077, 0x3dffe364, 0xc393c734, 0xf3fc17d5, 0x8805fb7c, 0x4e709f83, 0x64b0ce84] =
    [0xfbef1227, 0x12c789d1, 0x56808ce8, 0x9eaae64c, 0x64a829f3, 0x43dbdd85, 0xd82bca5e, 0x14f0670f,
     0x7ac93847, 0x282cfb42, 0x60e759d5, 0xaa38b147, 0xdfbb4c3b, 0x285d4b0d, 0xcf69bc64, 0x05ea3220]"
  by (rule columnround_check; simp add: quarterround_arx rotl32)

lemma salsa_vector_round_6:
  "rowround
    [0xfbef1227, 0x12c789d1, 0x56808ce8, 0x9eaae64c, 0x64a829f3, 0x43dbdd85, 0xd82bca5e, 0x14f0670f,
     0x7ac93847, 0x282cfb42, 0x60e759d5, 0xaa38b147, 0xdfbb4c3b, 0x285d4b0d, 0xcf69bc64, 0x05ea3220] =
    [0x28f2a180, 0x5e3bb01c, 0x03040a5c, 0x69e5ea6b, 0x997f9f3c, 0x1c650ad9, 0x9a28760a, 0x1c5778b3,
     0x89e18946, 0x5055ce7c, 0x3fec3108, 0x20123a83, 0x764c0e51, 0x44dda9f5, 0xf8616b01, 0x5632c6dc]"
  by (rule rowround_check; simp add: quarterround_arx rotl32)

lemma salsa_vector_round_7:
  "columnround
    [0x28f2a180, 0x5e3bb01c, 0x03040a5c, 0x69e5ea6b, 0x997f9f3c, 0x1c650ad9, 0x9a28760a, 0x1c5778b3,
     0x89e18946, 0x5055ce7c, 0x3fec3108, 0x20123a83, 0x764c0e51, 0x44dda9f5, 0xf8616b01, 0x5632c6dc] =
    [0xb0e98b83, 0x346a63e9, 0x3d22e238, 0x4b6545d0, 0x062877f3, 0x1abe5aed, 0x22bcf3e0, 0x2c4e21f0,
     0xbfd36f18, 0x0008b4c1, 0x678d4e77, 0x4cea3475, 0x0aad76ee, 0x9fa29dcd, 0xf232e26c, 0x0fa7223d]"
  by (rule columnround_check; simp add: quarterround_arx rotl32)

lemma salsa_vector_round_8:
  "rowround
    [0xb0e98b83, 0x346a63e9, 0x3d22e238, 0x4b6545d0, 0x062877f3, 0x1abe5aed, 0x22bcf3e0, 0x2c4e21f0,
     0xbfd36f18, 0x0008b4c1, 0x678d4e77, 0x4cea3475, 0x0aad76ee, 0x9fa29dcd, 0xf232e26c, 0x0fa7223d] =
    [0x7aea9826, 0x1302ca17, 0xe589d7bf, 0xdf5f9ac1, 0x25cb5c4a, 0xc7729c16, 0x51d583f0, 0x0bf39b29,
     0x4e3e14c6, 0x37a92e04, 0x6ca759ea, 0x87eba846, 0xe7af226e, 0x332bca23, 0xafa0c137, 0x22cca90f]"
  by (rule rowround_check; simp add: quarterround_arx rotl32)

lemma salsa20_8_rfc7914: "salsa20_8 rfc7914_salsa_in = rfc7914_salsa_out"
  by (simp add: rfc7914_salsa_in_def rfc7914_salsa_out_def salsa20_8_def salsa20_8_words_def
      eight_rounds salsa_vector_round_1 salsa_vector_round_2 salsa_vector_round_3 salsa_vector_round_4 salsa_vector_round_5 salsa_vector_round_6 salsa_vector_round_7 salsa_vector_round_8
      add_words_def le_bytes_def le32enc_def)

text \<open>The same input with the XOR that section 4.1 of the specification words.\<close>

lemma salsa20_8_rfc7914_xor:
  "le_bytes (xor_words (le_words rfc7914_salsa_in) ((doubleround ^^ 4) (le_words rfc7914_salsa_in)))
     = [0x58, 0x1f, 0x70, 0x5b, 0x58, 0xf4, 0xcb, 0x95, 0xc3, 0x7e, 0xc9, 0x03, 0x80, 0xeb, 0xd0, 0xf9,
       0xf0, 0xb2, 0x9e, 0x7e, 0x9a, 0xfd, 0xb3, 0x72, 0xfd, 0x7b, 0x93, 0x40, 0x44, 0x56, 0xc8, 0x16,
       0x28, 0x30, 0xcd, 0x57, 0xdb, 0xb5, 0x94, 0xb2, 0xfe, 0x4b, 0xb9, 0x27, 0x1c, 0x6d, 0x41, 0xb5,
       0x18, 0x20, 0xb2, 0xce, 0x2a, 0x0d, 0x63, 0x1a, 0xda, 0x2a, 0x66, 0x22, 0xb7, 0x11, 0x0e, 0x7c]"
  by (simp add: rfc7914_salsa_in_def eight_rounds salsa_vector_round_1 salsa_vector_round_2 salsa_vector_round_3 salsa_vector_round_4 salsa_vector_round_5 salsa_vector_round_6 salsa_vector_round_7 salsa_vector_round_8
      xor_words_def le_bytes_def le32enc_def)

text \<open>The second call of the core in BlockMix on the vector of RFC 7914, round by round.\<close>

lemma blockmix_vector_round_1:
  "columnround
    [0xd814562d, 0xbb771b14, 0x867fa457, 0xfe9f6faa, 0x0162d3c9, 0xc655bb95, 0xdca98772, 0x997baad6,
     0x394debd3, 0x4233832d, 0xbc0c4226, 0xa1c137f0, 0xbdd0699b, 0x8648c346, 0x8100a353, 0x08f1ce2d] =
    [0xd1add72d, 0xa88714ed, 0x671d2f78, 0xa71c617f, 0xf33d3783, 0xb457b44e, 0xef7b6f12, 0x8524f3b6,
     0x9a568a45, 0xa458d7ed, 0xc6251844, 0x8b679278, 0xc5e97829, 0xdb6fc793, 0xdbe46f1f, 0x10498c1f]"
  by (rule columnround_check; simp add: quarterround_arx rotl32)

lemma blockmix_vector_round_2:
  "rowround
    [0xd1add72d, 0xa88714ed, 0x671d2f78, 0xa71c617f, 0xf33d3783, 0xb457b44e, 0xef7b6f12, 0x8524f3b6,
     0x9a568a45, 0xa458d7ed, 0xc6251844, 0x8b679278, 0xc5e97829, 0xdb6fc793, 0xdbe46f1f, 0x10498c1f] =
    [0x7c1ebc98, 0xcd9b42d1, 0xf52ed246, 0xe5be9926, 0x9d459a4e, 0xad1c2ec4, 0x250e87c1, 0x495cec04,
     0x1310a8b2, 0xa2372efb, 0x9893cd5b, 0xb59f8acd, 0xd314e75f, 0x67893a55, 0x1fd2e84c, 0x9acf916f]"
  by (rule rowround_check; simp add: quarterround_arx rotl32)

lemma blockmix_vector_round_3:
  "columnround
    [0x7c1ebc98, 0xcd9b42d1, 0xf52ed246, 0xe5be9926, 0x9d459a4e, 0xad1c2ec4, 0x250e87c1, 0x495cec04,
     0x1310a8b2, 0xa2372efb, 0x9893cd5b, 0xb59f8acd, 0xd314e75f, 0x67893a55, 0x1fd2e84c, 0x9acf916f] =
    [0x2c76a3cc, 0x2ff085f6, 0xed480889, 0xd230870e, 0x049461e9, 0x792590ba, 0x28ddf049, 0x496c16de,
     0x752dabb3, 0xf98fe446, 0x7bdb95cc, 0x262209be, 0x92a76867, 0x3faf2f18, 0xcef86612, 0x18be2f57]"
  by (rule columnround_check; simp add: quarterround_arx rotl32)

lemma blockmix_vector_round_4:
  "rowround
    [0x2c76a3cc, 0x2ff085f6, 0xed480889, 0xd230870e, 0x049461e9, 0x792590ba, 0x28ddf049, 0x496c16de,
     0x752dabb3, 0xf98fe446, 0x7bdb95cc, 0x262209be, 0x92a76867, 0x3faf2f18, 0xcef86612, 0x18be2f57] =
    [0xafb7c3f9, 0x7c65e889, 0x5450a3d8, 0x03bcbd18, 0xc62b1bcc, 0x46671c68, 0xf424a1f7, 0xdd097404,
     0x80010bad, 0xf809c632, 0x3ca675e7, 0x939f0084, 0x49eddc94, 0x67b8f9dd, 0x14365026, 0x30b3c0ea]"
  by (rule rowround_check; simp add: quarterround_arx rotl32)

lemma blockmix_vector_round_5:
  "columnround
    [0xafb7c3f9, 0x7c65e889, 0x5450a3d8, 0x03bcbd18, 0xc62b1bcc, 0x46671c68, 0xf424a1f7, 0xdd097404,
     0x80010bad, 0xf809c632, 0x3ca675e7, 0x939f0084, 0x49eddc94, 0x67b8f9dd, 0x14365026, 0x30b3c0ea] =
    [0xdfe9d5d3, 0x35f90c9a, 0x9c3ae884, 0x2adc0a7a, 0x14fb5d30, 0x2cddfc76, 0xe0dce048, 0xc29fbcb3,
     0xe6435824, 0x9e8bbed3, 0x1f9781b8, 0xeb7abd2b, 0x9f4743f3, 0x820e8e14, 0x71bdbf3e, 0xd7c97883]"
  by (rule columnround_check; simp add: quarterround_arx rotl32)

lemma blockmix_vector_round_6:
  "rowround
    [0xdfe9d5d3, 0x35f90c9a, 0x9c3ae884, 0x2adc0a7a, 0x14fb5d30, 0x2cddfc76, 0xe0dce048, 0xc29fbcb3,
     0xe6435824, 0x9e8bbed3, 0x1f9781b8, 0xeb7abd2b, 0x9f4743f3, 0x820e8e14, 0x71bdbf3e, 0xd7c97883] =
    [0xaad84ddb, 0x57092a1f, 0x79c50ce9, 0xec3d1063, 0x127e7056, 0xe880388f, 0x0c703368, 0x5ec000c1,
     0x02b60010, 0x81ab2161, 0x9a51903c, 0xfadaf8f4, 0x5cdca357, 0xce393a7d, 0xca073a5c, 0x04af1982]"
  by (rule rowround_check; simp add: quarterround_arx rotl32)

lemma blockmix_vector_round_7:
  "columnround
    [0xaad84ddb, 0x57092a1f, 0x79c50ce9, 0xec3d1063, 0x127e7056, 0xe880388f, 0x0c703368, 0x5ec000c1,
     0x02b60010, 0x81ab2161, 0x9a51903c, 0xfadaf8f4, 0x5cdca357, 0xce393a7d, 0xca073a5c, 0x04af1982] =
    [0xf9dd8462, 0x65dda20f, 0x09359a63, 0x29342b1c, 0xc806e955, 0xe055bd9c, 0x9c3e65eb, 0x98493c9a,
     0xbcd860f5, 0x451a767e, 0x9b6b05ec, 0x562c20db, 0xb595f3cc, 0xfb672026, 0xaae6e80f, 0x7178a057]"
  by (rule columnround_check; simp add: quarterround_arx rotl32)

lemma blockmix_vector_round_8:
  "rowround
    [0xf9dd8462, 0x65dda20f, 0x09359a63, 0x29342b1c, 0xc806e955, 0xe055bd9c, 0x9c3e65eb, 0x98493c9a,
     0xbcd860f5, 0x451a767e, 0x9b6b05ec, 0x562c20db, 0xb595f3cc, 0xfb672026, 0xaae6e80f, 0x7178a057] =
    [0x9db596f3, 0xed0a1d1e, 0xc6769bae, 0x3e2dbd6c, 0xfd193358, 0x1c09d1ca, 0xb26d1d3f, 0x1dfc8bbf,
     0x46ef4faa, 0x69b0dd0e, 0x2989c76c, 0x149215ab, 0x9a51c0c2, 0x6fa51231, 0x70b88931, 0x1cf32121]"
  by (rule rowround_check; simp add: quarterround_arx rotl32)

lemma salsa20_8_blockmix_vector:
  "salsa20_8
    [0x2d, 0x56, 0x14, 0xd8, 0x14, 0x1b, 0x77, 0xbb, 0x57, 0xa4, 0x7f, 0x86, 0xaa, 0x6f, 0x9f, 0xfe,
    0xc9, 0xd3, 0x62, 0x01, 0x95, 0xbb, 0x55, 0xc6, 0x72, 0x87, 0xa9, 0xdc, 0xd6, 0xaa, 0x7b, 0x99,
    0xd3, 0xeb, 0x4d, 0x39, 0x2d, 0x83, 0x33, 0x42, 0x26, 0x42, 0x0c, 0xbc, 0xf0, 0x37, 0xc1, 0xa1,
    0x9b, 0x69, 0xd0, 0xbd, 0x46, 0xc3, 0x48, 0x86, 0x53, 0xa3, 0x00, 0x81, 0x2d, 0xce, 0xf1, 0x08] =
    [0x20, 0xed, 0xc9, 0x75, 0x32, 0x38, 0x81, 0xa8, 0x05, 0x40, 0xf6, 0x4c, 0x16, 0x2d, 0xcd, 0x3c,
    0x21, 0x07, 0x7c, 0xfe, 0x5f, 0x8d, 0x5f, 0xe2, 0xb1, 0xa4, 0x16, 0x8f, 0x95, 0x36, 0x78, 0xb7,
    0x7d, 0x3b, 0x3d, 0x80, 0x3b, 0x60, 0xe4, 0xab, 0x92, 0x09, 0x96, 0xe5, 0x9b, 0x4d, 0x53, 0xb6,
    0x5d, 0x2a, 0x22, 0x58, 0x77, 0xd5, 0xed, 0xf5, 0x84, 0x2c, 0xb9, 0xf1, 0x4e, 0xef, 0xe4, 0x25]"
  by (simp add: salsa20_8_def salsa20_8_words_def
      eight_rounds blockmix_vector_round_1 blockmix_vector_round_2 blockmix_vector_round_3 blockmix_vector_round_4 blockmix_vector_round_5 blockmix_vector_round_6 blockmix_vector_round_7 blockmix_vector_round_8
      add_words_def le_bytes_def le32enc_def)

lemma BlockMix_rfc7914: "BlockMix rfc7914_blockmix_in = rfc7914_blockmix_out"
proof -
  have x: "xor_bytes (take 64 (drop 64 rfc7914_blockmix_in)) (take 64 rfc7914_blockmix_in)
             = rfc7914_salsa_in"
    by (simp add: rfc7914_blockmix_in_def rfc7914_salsa_in_def xor_bytes_def)
  have y: "xor_bytes rfc7914_salsa_out (take 64 (drop 64 rfc7914_blockmix_in)) =
    [0x2d, 0x56, 0x14, 0xd8, 0x14, 0x1b, 0x77, 0xbb, 0x57, 0xa4, 0x7f, 0x86, 0xaa, 0x6f, 0x9f, 0xfe,
    0xc9, 0xd3, 0x62, 0x01, 0x95, 0xbb, 0x55, 0xc6, 0x72, 0x87, 0xa9, 0xdc, 0xd6, 0xaa, 0x7b, 0x99,
    0xd3, 0xeb, 0x4d, 0x39, 0x2d, 0x83, 0x33, 0x42, 0x26, 0x42, 0x0c, 0xbc, 0xf0, 0x37, 0xc1, 0xa1,
    0x9b, 0x69, 0xd0, 0xbd, 0x46, 0xc3, 0x48, 0x86, 0x53, 0xa3, 0x00, 0x81, 0x2d, 0xce, 0xf1, 0x08]"
    by (simp add: rfc7914_blockmix_in_def rfc7914_salsa_out_def xor_bytes_def)
  show ?thesis
    by (simp add: BlockMix_def Let_def x salsa20_8_rfc7914 y salsa20_8_blockmix_vector)
      (simp add: rfc7914_salsa_out_def rfc7914_blockmix_out_def)
qed

lemma Integerify_rfc7914: "Integerify rfc7914_blockmix_in = 0x44914989"
  by (simp add: Integerify_def rfc7914_blockmix_in_def)

lemma length_BlockMix: "length B = 128 \<Longrightarrow> length (BlockMix B) = 128"
  by (simp add: BlockMix_def Let_def length_salsa20_8 xor_bytes_def)

section \<open>ROMix\<close>

lemma romix_fill_from:
  "i \<le> N \<Longrightarrow> length V = N \<Longrightarrow>
   romix_fill i N V B =
     (take i V @ map (\<lambda>k. (BlockMix ^^ k) B) [0..<N - i], (BlockMix ^^ (N - i)) B)"
proof (induction i N V B rule: romix_fill.induct)
  case (1 i N V B)
  show ?case
  proof (cases "i < N")
    case True
    have step: "romix_fill i N V B = romix_fill (Suc i) N (V[i := B]) (BlockMix B)"
      using True by (subst romix_fill.simps) simp
    have ih: "romix_fill (Suc i) N (V[i := B]) (BlockMix B) =
        (take (Suc i) (V[i := B]) @ map (\<lambda>k. (BlockMix ^^ k) (BlockMix B)) [0..<N - Suc i],
         (BlockMix ^^ (N - Suc i)) (BlockMix B))"
      using "1.IH" [OF True] True "1.prems" by simp
    have t: "take (Suc i) (V[i := B]) = take i V @ [B]"
      using True "1.prems" by (simp add: take_Suc_conv_app_nth)
    have n: "N - i = Suc (N - Suc i)"
      using True by simp
    have m: "map (\<lambda>k. (BlockMix ^^ k) B) [0..<Suc (N - Suc i)]
           = B # map (\<lambda>k. (BlockMix ^^ k) (BlockMix B)) [0..<N - Suc i]"
      by (simp only: upt_conv_Cons [of 0] map_Suc_upt [symmetric])
         (simp add: funpow_swap1)
    show ?thesis
      by (simp only: step ih t n m) (simp add: funpow_swap1)
  next
    case False
    then show ?thesis
      using "1.prems" by (subst romix_fill.simps) simp
  qed
qed

lemma romix_fill_table:
  "length V = N \<Longrightarrow>
   romix_fill 0 N V B = (map (\<lambda>k. (BlockMix ^^ k) B) [0..<N], (BlockMix ^^ N) B)"
  using romix_fill_from [of 0 N V B] by simp

lemma romix_mix_funpow: "romix_mix k N V B = (mix_step N V ^^ k) B"
  by (induction k arbitrary: B) (simp_all add: funpow_swap1)

lemma ROMix_table_free:
  "length V = N \<Longrightarrow>
   ROMix N V B = (mix_step N (map (\<lambda>k. (BlockMix ^^ k) B) [0..<N]) ^^ N) ((BlockMix ^^ N) B)"
  by (simp add: ROMix_def romix_fill_table romix_mix_funpow)

lemma Integerify_bound: "Integerify B < 2 ^ 32"
  using unsigned_less [of "le32dec (take 4 (drop 64 B))", where 'a = nat]
  by (simp add: Integerify_def)

lemma Integerify_word:
  "length b = 64 \<Longrightarrow> Integerify (b @ le32enc w @ c) = unat w"
proof -
  assume "length b = 64"
  then have "take 4 (drop 64 (b @ le32enc w @ c)) = le32enc w"
    by (simp add: length_le32enc)
  then show ?thesis
    by (simp add: Integerify_def le32dec_le32enc)
qed

section \<open>SHA-256, HMAC, PBKDF2: lengths and the single iteration\<close>

lemma length_sha256_digest: "length (sha256_digest s) = 32"
  by (simp add: sha256_digest_def length_be32enc split: prod.splits)

lemma length_SHA256: "length (SHA256 m) = 32"
  by (simp add: SHA256_def length_sha256_digest)

lemma length_HMAC_SHA256: "length (HMAC_SHA256 K m) = 32"
  by (simp add: HMAC_SHA256_def Let_def length_SHA256)


lemma length_pbkdf2_fold:
  "length T = 32 \<Longrightarrow> length (pbkdf2_fold P k U T) = 32"
  by (induction k arbitrary: U T) (simp_all add: Let_def xor_bytes_def length_HMAC_SHA256)

lemma length_pbkdf2_F: "length (pbkdf2_F P S c i) = 32"
  by (simp add: pbkdf2_F_def Let_def length_pbkdf2_fold length_HMAC_SHA256)

lemma length_concat_blocks:
  "(\<And>i. length (f i) = 32) \<Longrightarrow> length (concat (map f js)) = 32 * length js"
  by (induction js) simp_all

lemma length_PBKDF2_SHA256: "length (PBKDF2_SHA256 P S c dkLen) = dkLen"
proof -
  have "length (concat (map (pbkdf2_F P S c) [1..<Suc ((dkLen + 31) div 32)]))
          = 32 * ((dkLen + 31) div 32)"
    by (subst length_concat_blocks) (simp_all add: length_pbkdf2_F)
  moreover have "dkLen \<le> 32 * ((dkLen + 31) div 32)"
    by arith
  ultimately show ?thesis
    by (simp add: PBKDF2_SHA256_def)
qed



section \<open>The driver\<close>

lemma length_scryptHash: "length (scryptHash junk input) = 32"
  by (simp add: scryptHash_def Let_def length_PBKDF2_SHA256)

lemma scryptHash_table_free: "scryptHash junk input = scryptHash junk' input"
proof -
  have a: "length (map junk [0..<1024]) = 1024"
    by (simp only: length_map length_upt diff_zero)
  have b: "length (map junk' [0..<1024]) = 1024"
    by (simp only: length_map length_upt diff_zero)
  show ?thesis
    unfolding scryptHash_def Let_def ROMix_table_free [OF a] ROMix_table_free [OF b] ..
qed

lemma scrypt_1024_1_1_256_writes_digest:
  "length output = 32 \<Longrightarrow> scrypt_1024_1_1_256 junk input output = scryptHash junk input"
  by (simp add: scrypt_1024_1_1_256_def Let_def length_scryptHash)

section \<open>The wrapper, path by path\<close>

lemmas wrapper_defs = scrypt_getpowhash_def PyArg_ParseTuple_def init_state_def emit_def
  check_len_def PyBuffer_Release_def PyErr_SetString_def PyErr_NoMemory_def PyMem_Malloc_def
  PyMem_Free_def call_scrypt_def Py_BuildValue_def

lemma parse_ystar_Some: "parse_ystar args = Some x \<longleftrightarrow> parse_args args = Inr x"
  by (simp add: parse_ystar_def split: sum.splits)

lemma parse_ystar_None: "parse_ystar args = None \<longleftrightarrow> (\<exists>x. parse_args args = Inl x)"
  by (simp add: parse_ystar_def split: sum.splits)

lemma path_parse_failure:
  assumes "parse_args args = Inl x"
  shows "scrypt_getpowhash e args =
           (None, \<lparr>exc = Some x, objs = args, exports = 0, blocks = 0,
                   trace = [ParseArgs]\<rparr>)"
  using assms by (simp add: wrapper_defs)

lemma path_wrong_length:
  assumes "parse_ystar args = Some x" and "length x \<noteq> 80"
  shows "scrypt_getpowhash e args =
           (None, \<lparr>exc = Some ValueError, objs = args, exports = 0, blocks = 0,
                   trace = [ParseArgs, LenCheck, Release, Raise ValueError]\<rparr>)"
  using assms by (simp add: wrapper_defs parse_ystar_Some)

lemma path_malloc_failure:
  assumes "parse_ystar args = Some x" and "length x = 80" and "\<not> malloc_ok e"
  shows "scrypt_getpowhash e args =
           (None, \<lparr>exc = Some MemoryError, objs = args, exports = 0, blocks = 0,
                   trace = [ParseArgs, LenCheck, Malloc 32, Release, Raise MemoryError]\<rparr>)"
  using assms by (simp add: wrapper_defs parse_ystar_Some)

lemma path_core_called:
  assumes "parse_ystar args = Some x" and "length x = 80" and "malloc_ok e"
  shows "scrypt_getpowhash e args =
      (if build_ok e then Some (scryptHash (scratch_junk e) x) else None,
       \<lparr>exc = (if build_ok e then None else Some MemoryError), objs = args, exports = 0,
         blocks = 0,
         trace = [ParseArgs, LenCheck, Malloc 32, CoreCall, Release, BuildValue, Free]\<rparr>)"
  using assms
  by (simp add: wrapper_defs parse_ystar_Some scrypt_1024_1_1_256_writes_digest
      length_scryptHash)

lemma parse_ystar_bytes: "parse_ystar [PyBytes bs] = Some bs"
  by (simp add: parse_ystar_def parse_args_def)

lemma parse_ystar_bytearray: "parse_ystar [PyByteArray bs] = Some bs"
  by (simp add: parse_ystar_def parse_args_def)

section \<open>The claims\<close>

text \<open>
  Claim C1. A call whose argument is a bytes-like buffer of a length other than 80 (79 and
  81 among them) returns NULL with \<open>ValueError\<close> set. The trace of the call ends at the
  exception: the buffer is released, no output block is allocated, the core is not called
  and no result object is built.
\<close>

theorem wrong_length_rejected:
  assumes "parse_ystar args = Some x" and "length x \<noteq> 80"
  shows "fst (scrypt_getpowhash e args) = None
       \<and> exc (snd (scrypt_getpowhash e args)) = Some ValueError
       \<and> trace (snd (scrypt_getpowhash e args)) = [ParseArgs, LenCheck, Release, Raise ValueError]
       \<and> blocks (snd (scrypt_getpowhash e args)) = 0
       \<and> Malloc 32 \<notin> set (trace (snd (scrypt_getpowhash e args)))
       \<and> CoreCall \<notin> set (trace (snd (scrypt_getpowhash e args)))
       \<and> BuildValue \<notin> set (trace (snd (scrypt_getpowhash e args)))"
  using path_wrong_length [OF assms, of e] by simp

theorem wrong_length_rejected_witness:
  "length (replicate 79 (0::byte)) \<noteq> 80
   \<and> fst (scrypt_getpowhash (zero_env True True) [PyBytes (replicate 79 0)]) = None
   \<and> exc (snd (scrypt_getpowhash (zero_env True True) [PyBytes (replicate 79 0)])) = Some ValueError
   \<and> CoreCall \<notin> set (trace (snd (scrypt_getpowhash (zero_env True True) [PyBytes (replicate 79 0)])))
   \<and> length (replicate 81 (0::byte)) \<noteq> 80
   \<and> fst (scrypt_getpowhash (zero_env True True) [PyByteArray (replicate 81 0)]) = None
   \<and> exc (snd (scrypt_getpowhash (zero_env True True) [PyByteArray (replicate 81 0)])) = Some ValueError"
proof -
  have a: "length (replicate 79 (0::byte)) \<noteq> 80" and b: "length (replicate 81 (0::byte)) \<noteq> 80"
    by simp_all
  show ?thesis
    using a b
      wrong_length_rejected [OF parse_ystar_bytes a, of "zero_env True True"]
      wrong_length_rejected [OF parse_ystar_bytearray b, of "zero_env True True"]
    by simp
qed

text \<open>
  Claim C2. A call on a buffer of exactly 80 bytes, when both allocations succeed (the
  32-byte output block and the result object), returns a bytes object of exactly 32 bytes
  and leaves no exception set. Every function of the model is total, so the call returns.
\<close>

theorem valid_input_returns_32_bytes:
  assumes "parse_ystar args = Some x" and "length x = 80"
    and "malloc_ok e" and "build_ok e"
  shows "\<exists>y. fst (scrypt_getpowhash e args) = Some y \<and> length y = 32
           \<and> exc (snd (scrypt_getpowhash e args)) = None"
  using path_core_called [OF assms(1-3)] assms(4) by (simp add: length_scryptHash)

theorem valid_input_returns_32_bytes_witness:
  "length (replicate 80 (0::byte)) = 80 \<and> malloc_ok (zero_env True True)
   \<and> build_ok (zero_env True True)
   \<and> (\<exists>y. fst (scrypt_getpowhash (zero_env True True) [PyBytes (replicate 80 0)]) = Some y
          \<and> length y = 32
          \<and> exc (snd (scrypt_getpowhash (zero_env True True) [PyBytes (replicate 80 0)])) = None)"
proof -
  have a: "length (replicate 80 (0::byte)) = 80"
    by simp
  have m: "malloc_ok (zero_env True True)" and b: "build_ok (zero_env True True)"
    by (simp_all add: zero_env_def)
  show ?thesis
    using a m b valid_input_returns_32_bytes [OF parse_ystar_bytes a m b] by simp
qed

text \<open>
  Claim C3. Two successful calls on the same 80 input bytes return the same 32 bytes,
  whatever the two environments are: what the fresh output block held, what the working
  table held, and which kind of bytes-like object carried the input do not show in the
  result.
\<close>

theorem pow_hash_deterministic:
  assumes "parse_ystar args1 = Some x" and "parse_ystar args2 = Some x" and "length x = 80"
    and "fst (scrypt_getpowhash e1 args1) = Some y1"
    and "fst (scrypt_getpowhash e2 args2) = Some y2"
  shows "y1 = y2 \<and> length y1 = 32"
proof -
  have ok1: "malloc_ok e1"
  proof (rule ccontr)
    assume "\<not> malloc_ok e1"
    from path_malloc_failure [OF assms(1,3) this] assms(4) show False
      by simp
  qed
  have ok2: "malloc_ok e2"
  proof (rule ccontr)
    assume "\<not> malloc_ok e2"
    from path_malloc_failure [OF assms(2,3) this] assms(5) show False
      by simp
  qed
  have y1: "y1 = scryptHash (scratch_junk e1) x"
    using path_core_called [OF assms(1,3) ok1] assms(4) by (simp split: if_splits)
  have y2: "y2 = scryptHash (scratch_junk e2) x"
    using path_core_called [OF assms(2,3) ok2] assms(5) by (simp split: if_splits)
  show ?thesis
    using y1 y2 scryptHash_table_free [of "scratch_junk e1" x "scratch_junk e2"]
    by (simp add: length_scryptHash)
qed

theorem pow_hash_deterministic_witness:
  "length (replicate 80 (7::byte)) = 80
   \<and> fst (scrypt_getpowhash (zero_env True True) [PyBytes (replicate 80 7)])
       = Some (scryptHash (\<lambda>i. []) (replicate 80 7))
   \<and> fst (scrypt_getpowhash
        \<lparr>malloc_ok = True, heap_junk = (\<lambda>i. 255), build_ok = True, scratch_junk = (\<lambda>i. [1, 2, 3])\<rparr>
        [PyByteArray (replicate 80 7)])
       = Some (scryptHash (\<lambda>i. [1, 2, 3]) (replicate 80 7))
   \<and> scryptHash (\<lambda>i. []) (replicate 80 7) = scryptHash (\<lambda>i. [1, 2, 3]) (replicate 80 7)
   \<and> length (scryptHash (\<lambda>i. []) (replicate 80 7)) = 32"
proof -
  let ?x = "replicate 80 (7::byte)"
  let ?e2 = "\<lparr>malloc_ok = True, heap_junk = (\<lambda>i. 255), build_ok = True,
               scratch_junk = (\<lambda>i. [1, 2, 3 :: byte])\<rparr>"
  have a: "length ?x = 80"
    by simp
  have r1: "fst (scrypt_getpowhash (zero_env True True) [PyBytes ?x])
              = Some (scryptHash (\<lambda>i. []) ?x)"
    using path_core_called [OF parse_ystar_bytes a, of "zero_env True True"]
    by (simp add: zero_env_def)
  have r2: "fst (scrypt_getpowhash ?e2 [PyByteArray ?x]) = Some (scryptHash (\<lambda>i. [1, 2, 3]) ?x)"
    using path_core_called [OF parse_ystar_bytearray a, of ?e2] by simp
  show ?thesis
    using a r1 r2
      pow_hash_deterministic [OF parse_ystar_bytes parse_ystar_bytearray a r1 r2]
    by (simp add: length_scryptHash)
qed

text \<open>
  Claim C4. ROMix on a working table of N slots, whatever the slots held before. The fill
  phase leaves slot \<open>i\<close> holding \<open>BlockMix\<close> applied \<open>i\<close> times to \<open>B\<close>, for every
  \<open>i < N\<close>, and hands on \<open>BlockMix\<close> applied \<open>N\<close> times; nothing of the old table is
  left. The mix phase then runs \<open>N\<close> times the step that takes
  \<open>j = Integerify(X) mod N\<close>, XORs \<open>X\<close> byte by byte with slot \<open>j\<close> of that filled table
  and applies \<open>BlockMix\<close>. \<open>Integerify\<close> is the little-endian 32-bit word at bytes 64 to
  67 of the block (on the block of RFC 7914 it is \<open>0x44914989\<close>), \<open>j\<close> is a slot of the
  table, and \<open>BlockMix\<close> is the function that reproduces the vector of RFC 7914. The
  driver uses N = 1024.
\<close>

theorem romix_fill_then_mix:
  assumes "length V = N"
  shows "romix_fill 0 N V B = (map (\<lambda>i. (BlockMix ^^ i) B) [0..<N], (BlockMix ^^ N) B)
       \<and> ROMix N V B =
           ((\<lambda>Y. BlockMix (xor_bytes Y (map (\<lambda>i. (BlockMix ^^ i) B) [0..<N]
                                           ! (Integerify Y mod N)))) ^^ N)
             ((BlockMix ^^ N) B)
       \<and> (\<forall>b w c. length b = 64 \<longrightarrow> Integerify (b @ le32enc w @ c) = unat w)
       \<and> Integerify rfc7914_blockmix_in = 0x44914989
       \<and> (\<forall>X. Integerify X < 2 ^ 32 \<and> (0 < N \<longrightarrow> Integerify X mod N < length V))
       \<and> (\<forall>xs ys. length xs = length ys \<longrightarrow>
             length (xor_bytes xs ys) = length xs \<and>
             (\<forall>i < length xs. xor_bytes xs ys ! i = xs ! i XOR ys ! i))
       \<and> BlockMix rfc7914_blockmix_in = rfc7914_blockmix_out"
proof -
  let ?T = "map (\<lambda>i. (BlockMix ^^ i) B) [0..<N]"
  have fill: "romix_fill 0 N V B = (?T, (BlockMix ^^ N) B)"
    by (rule romix_fill_table [OF assms])
  have step: "mix_step N T = (\<lambda>Y. BlockMix (xor_bytes Y (T ! (Integerify Y mod N))))" for T
    by (rule ext) (simp add: mix_step_def)
  have mix: "ROMix N V B =
      ((\<lambda>Y. BlockMix (xor_bytes Y (?T ! (Integerify Y mod N)))) ^^ N) ((BlockMix ^^ N) B)"
    by (simp only: ROMix_table_free [OF assms] step)
  have idx: "Integerify X < 2 ^ 32 \<and> (0 < N \<longrightarrow> Integerify X mod N < length V)" for X
    using assms Integerify_bound [of X] by simp
  have xr: "length (xor_bytes xs ys) = length xs \<and>
      (\<forall>i < length xs. xor_bytes xs ys ! i = xs ! i XOR ys ! i)"
    if "length xs = length ys" for xs ys
    using that by (simp add: length_xor_bytes xor_bytes_nth)
  show ?thesis
    using fill mix idx xr Integerify_word Integerify_rfc7914 BlockMix_rfc7914
    by (intro conjI allI impI) blast+
qed

theorem romix_fill_then_mix_witness:
  "length (replicate 2 [9 :: byte]) = 2
   \<and> romix_fill 0 2 (replicate 2 [9]) rfc7914_blockmix_in
       = ([rfc7914_blockmix_in, rfc7914_blockmix_out], BlockMix rfc7914_blockmix_out)
   \<and> ROMix 2 (replicate 2 [9]) rfc7914_blockmix_in
       = romix_mix 2 2 [rfc7914_blockmix_in, rfc7914_blockmix_out]
           (BlockMix rfc7914_blockmix_out)"
proof -
  have a: "length (replicate 2 [9 :: byte]) = 2"
    by simp
  have u: "[0..<2] = [0, Suc 0]"
    by (simp add: upt_rec)
  have f: "romix_fill 0 2 (replicate 2 [9]) rfc7914_blockmix_in
       = ([rfc7914_blockmix_in, rfc7914_blockmix_out], BlockMix rfc7914_blockmix_out)"
    using romix_fill_then_mix [OF a, of rfc7914_blockmix_in]
    by (simp add: u numeral_2_eq_2)
  show ?thesis
    using a f by (simp add: ROMix_def)
qed

text \<open>
  Claim C5, as the core that reproduces the published vectors has it. On a 64-byte block,
  read as 16 little-endian words, the Salsa20/8 core returns 64 bytes whose words are the
  input words added, modulo \<open>2 ^ 32\<close>, to the words after eight rounds: a column round then
  a row round, four times over. A column round is four quarter-rounds down the columns
  and a row round four along the rows, each starting on the diagonal; a quarter-round is
  addition, rotation and XOR with the rotation constants 7, 9, 13 and 18. The core
  reproduces the Salsa20/8 vector of RFC 7914. The function reads its argument only.
\<close>

theorem salsa20_8_input_plus_eight_rounds:
  assumes "length B = 64"
  shows "length (salsa20_8 B) = 64
       \<and> length (le_words B) = 16
       \<and> le_words (salsa20_8 B) =
           add_words (le_words B)
             (rowround (columnround (rowround (columnround (rowround (columnround
               (rowround (columnround (le_words B)))))))))
       \<and> (\<forall>i < 16. le_words (salsa20_8 B) ! i =
             le_words B ! i +
             rowround (columnround (rowround (columnround (rowround (columnround
               (rowround (columnround (le_words B)))))))) ! i)
       \<and> (\<forall>x0 x1 x2 x3 x4 x5 x6 x7 x8 x9 x10 x11 x12 x13 x14 x15.
             columnround [x0, x1, x2, x3, x4, x5, x6, x7, x8, x9, x10, x11, x12, x13, x14, x15] =
               (case quarterround (x0, x4, x8, x12) of (z0, z4, z8, z12) \<Rightarrow>
                case quarterround (x5, x9, x13, x1) of (z5, z9, z13, z1) \<Rightarrow>
                case quarterround (x10, x14, x2, x6) of (z10, z14, z2, z6) \<Rightarrow>
                case quarterround (x15, x3, x7, x11) of (z15, z3, z7, z11) \<Rightarrow>
                  [z0, z1, z2, z3, z4, z5, z6, z7, z8, z9, z10, z11, z12, z13, z14, z15]))
       \<and> (\<forall>x0 x1 x2 x3 x4 x5 x6 x7 x8 x9 x10 x11 x12 x13 x14 x15.
             rowround [x0, x1, x2, x3, x4, x5, x6, x7, x8, x9, x10, x11, x12, x13, x14, x15] =
               (case quarterround (x0, x1, x2, x3) of (z0, z1, z2, z3) \<Rightarrow>
                case quarterround (x5, x6, x7, x4) of (z5, z6, z7, z4) \<Rightarrow>
                case quarterround (x10, x11, x8, x9) of (z10, z11, z8, z9) \<Rightarrow>
                case quarterround (x15, x12, x13, x14) of (z15, z12, z13, z14) \<Rightarrow>
                  [z0, z1, z2, z3, z4, z5, z6, z7, z8, z9, z10, z11, z12, z13, z14, z15]))
       \<and> (\<forall>y0 y1 y2 y3 z0 z1 z2 z3.
             quarterround (y0, y1, y2, y3) = (z0, z1, z2, z3) \<longleftrightarrow>
               z1 = y1 XOR word_rotl 7 (y0 + y3) \<and>
               z2 = y2 XOR word_rotl 9 (z1 + y0) \<and>
               z3 = y3 XOR word_rotl 13 (z2 + z1) \<and>
               z0 = y0 XOR word_rotl 18 (z3 + z2))
       \<and> salsa20_8 rfc7914_salsa_in = rfc7914_salsa_out"
proof -
  let ?R = "rowround (columnround (rowround (columnround (rowround (columnround
               (rowround (columnround (le_words B))))))))"
  have len: "length (le_words B) = 16"
    using assms by (simp add: length_le_words)
  have lenR: "length ?R = 16"
    using len length_funpow_doubleround [of 4 "le_words B"] by (simp only: eight_rounds)
  have w: "le_words (salsa20_8 B) = add_words (le_words B) ?R"
    by (simp only: le_words_salsa20_8 eight_rounds)
  have nth: "le_words (salsa20_8 B) ! i = le_words B ! i + ?R ! i" if "i < 16" for i
    using that len lenR by (simp add: w add_words_def)
  have out: "length (salsa20_8 B) = 64"
    using assms by (simp add: length_salsa20_8)
  show ?thesis
    using out len w nth columnround_matrix rowround_matrix quarterround_arx salsa20_8_rfc7914
    by (intro conjI allI impI) blast+
qed

theorem salsa20_8_input_plus_eight_rounds_witness:
  "length rfc7914_salsa_in = 64
   \<and> length (salsa20_8 rfc7914_salsa_in) = 64
   \<and> salsa20_8 rfc7914_salsa_in = rfc7914_salsa_out
   \<and> le_words (salsa20_8 rfc7914_salsa_in) ! 0
       = le_words rfc7914_salsa_in ! 0 +
         rowround (columnround (rowround (columnround (rowround (columnround
           (rowround (columnround (le_words rfc7914_salsa_in)))))))) ! 0"
proof -
  have a: "length rfc7914_salsa_in = 64"
    by (simp add: rfc7914_salsa_in_def)
  note t = salsa20_8_input_plus_eight_rounds [OF a]
  from t have l: "length (salsa20_8 rfc7914_salsa_in) = 64"
    by (elim conjE)
  from t have v: "salsa20_8 rfc7914_salsa_in = rfc7914_salsa_out"
    by (elim conjE)
  from t have n: "\<forall>i < 16. le_words (salsa20_8 rfc7914_salsa_in) ! i =
      le_words rfc7914_salsa_in ! i +
      rowround (columnround (rowround (columnround (rowround (columnround
        (rowround (columnround (le_words rfc7914_salsa_in)))))))) ! i"
    by (elim conjE)
  from n have "le_words (salsa20_8 rfc7914_salsa_in) ! 0 =
      le_words rfc7914_salsa_in ! 0 +
      rowround (columnround (rowround (columnround (rowround (columnround
        (rowround (columnround (le_words rfc7914_salsa_in)))))))) ! 0"
    by simp
  with a l v show ?thesis
    by (intro conjI)
qed

text \<open>
  Counterexample to claim C5 as stated, "the input XORed with the result" of the eight
  rounds: on the Salsa20/8 vector of RFC 7914 the core returns the published output, and
  the XOR of the input with the rounds is another block.
\<close>

theorem salsa20_8_not_input_xor_rounds:
  "salsa20_8 rfc7914_salsa_in \<noteq>
     le_bytes (xor_words (le_words rfc7914_salsa_in)
       ((doubleround ^^ 4) (le_words rfc7914_salsa_in)))"
  by (simp add: salsa20_8_rfc7914 salsa20_8_rfc7914_xor rfc7914_salsa_out_def)



text \<open>
  Claim C7. On an 80-byte buffer, when \<^verbatim>\<open>PyMem_Malloc(32)\<close> returns NULL the call returns
  NULL with \<open>MemoryError\<close> set. The trace ends at the exception: the core is never called
  and no result object is built, so no output of any kind reaches the caller.
\<close>

theorem allocation_failure_is_MemoryError:
  assumes "parse_ystar args = Some x" and "length x = 80" and "\<not> malloc_ok e"
  shows "fst (scrypt_getpowhash e args) = None
       \<and> exc (snd (scrypt_getpowhash e args)) = Some MemoryError
       \<and> trace (snd (scrypt_getpowhash e args))
           = [ParseArgs, LenCheck, Malloc 32, Release, Raise MemoryError]
       \<and> CoreCall \<notin> set (trace (snd (scrypt_getpowhash e args)))
       \<and> BuildValue \<notin> set (trace (snd (scrypt_getpowhash e args)))"
  using path_malloc_failure [OF assms] by simp

theorem allocation_failure_is_MemoryError_witness:
  "length (replicate 80 (0::byte)) = 80 \<and> \<not> malloc_ok (zero_env False True)
   \<and> fst (scrypt_getpowhash (zero_env False True) [PyBytes (replicate 80 0)]) = None
   \<and> exc (snd (scrypt_getpowhash (zero_env False True) [PyBytes (replicate 80 0)]))
       = Some MemoryError
   \<and> CoreCall \<notin> set (trace (snd (scrypt_getpowhash (zero_env False True)
                                    [PyBytes (replicate 80 0)])))"
proof -
  have a: "length (replicate 80 (0::byte)) = 80"
    by simp
  have m: "\<not> malloc_ok (zero_env False True)"
    by (simp add: zero_env_def)
  show ?thesis
    using a m allocation_failure_is_MemoryError [OF parse_ystar_bytes a m] by simp
qed

text \<open>
  Claim C8, as the code has it. Besides a buffer that is not 80 bytes long
  (\<open>ValueError\<close>) and a failed allocation of the output block or of the result object
  (\<open>MemoryError\<close>), the call fails when argument parsing rejects the arguments, with the
  exception that parsing left set. It fails in no other way: on an 80-byte buffer with
  both allocations succeeding it returns the digest and sets no exception.
\<close>

theorem error_conditions_at_boundary:
  "(fst (scrypt_getpowhash e args), exc (snd (scrypt_getpowhash e args))) =
     (case parse_args args of
        Inl x \<Rightarrow> (None, Some x)
      | Inr b \<Rightarrow>
          if length b \<noteq> 80 then (None, Some ValueError)
          else if malloc_ok e \<and> build_ok e then (Some (scryptHash (scratch_junk e) b), None)
          else (None, Some MemoryError))"
proof (cases "parse_args args")
  case (Inl x)
  then show ?thesis
    using path_parse_failure [OF Inl, of e] by simp
next
  case (Inr b)
  then have p: "parse_ystar args = Some b"
    by (simp add: parse_ystar_Some)
  show ?thesis
  proof (cases "length b = 80")
    case False
    then show ?thesis
      using path_wrong_length [OF p False, of e] Inr by simp
  next
    case len: True
    show ?thesis
    proof (cases "malloc_ok e")
      case True
      then show ?thesis
        using path_core_called [OF p len True] Inr len by simp
    next
      case False
      then show ?thesis
        using path_malloc_failure [OF p len False] Inr len by simp
    qed
  qed
qed

theorem error_conditions_at_boundary_witness:
  "(fst (scrypt_getpowhash (zero_env True False) [PyBytes (replicate 80 0)]),
    exc (snd (scrypt_getpowhash (zero_env True False) [PyBytes (replicate 80 0)])))
     = (None, Some MemoryError)
   \<and> (fst (scrypt_getpowhash (zero_env True True) [PyBytes (replicate 80 0)]),
       exc (snd (scrypt_getpowhash (zero_env True True) [PyBytes (replicate 80 0)])))
     = (Some (scryptHash (\<lambda>i. []) (replicate 80 0)), None)
   \<and> (fst (scrypt_getpowhash (zero_env True True) []),
       exc (snd (scrypt_getpowhash (zero_env True True) [])))
     = (None, Some TypeError)
   \<and> (fst (scrypt_getpowhash (zero_env True True) [PyMemoryView (replicate 80 0) False False]),
       exc (snd (scrypt_getpowhash (zero_env True True)
                   [PyMemoryView (replicate 80 0) False False])))
     = (None, Some BufferError)
   \<and> (fst (scrypt_getpowhash (zero_env True True) [PyMemoryView (replicate 80 0) True True]),
       exc (snd (scrypt_getpowhash (zero_env True True)
                   [PyMemoryView (replicate 80 0) True True])))
     = (None, Some ValueError)"
  using error_conditions_at_boundary [of "zero_env True False" "[PyBytes (replicate 80 0)]"]
    error_conditions_at_boundary [of "zero_env True True" "[PyBytes (replicate 80 0)]"]
    error_conditions_at_boundary [of "zero_env True True" "[]"]
    error_conditions_at_boundary
      [of "zero_env True True" "[PyMemoryView (replicate 80 0) False False]"]
    error_conditions_at_boundary
      [of "zero_env True True" "[PyMemoryView (replicate 80 0) True True]"]
  by (simp add: parse_args_def zero_env_def)

text \<open>
  Counterexample to claim C8 as stated, "exactly two error conditions: invalid input length
  and allocation failure": on a \<open>str\<close> of 80 characters with both allocations succeeding
  the call returns NULL with \<open>TypeError\<close>, which is neither of the two.
\<close>

theorem str_argument_third_error:
  "length (replicate 80 CHR ''a'') = 80
   \<and> malloc_ok (zero_env True True) \<and> build_ok (zero_env True True)
   \<and> fst (scrypt_getpowhash (zero_env True True) [PyUnicode (replicate 80 CHR ''a'')]) = None
   \<and> exc (snd (scrypt_getpowhash (zero_env True True) [PyUnicode (replicate 80 CHR ''a'')]))
       = Some TypeError
   \<and> TypeError \<noteq> ValueError \<and> TypeError \<noteq> MemoryError"
proof -
  have p: "parse_args [PyUnicode (replicate 80 CHR ''a'')] = Inl TypeError"
    by (simp add: parse_args_def)
  show ?thesis
    using path_parse_failure [OF p, of "zero_env True True"] by (simp add: zero_env_def)
qed

text \<open>
  Claim C9. When the arguments are not a single bytes-like buffer, the call returns NULL
  with the exception of argument parsing set, and parsing is all it has done: no length
  check, no allocation, no call of the core.
\<close>

theorem unparsable_argument_fails_first:
  assumes "parse_ystar args = None"
  shows "fst (scrypt_getpowhash e args) = None
       \<and> exc (snd (scrypt_getpowhash e args)) \<noteq> None
       \<and> (\<exists>x. parse_args args = Inl x \<and> exc (snd (scrypt_getpowhash e args)) = Some x)
       \<and> trace (snd (scrypt_getpowhash e args)) = [ParseArgs]
       \<and> LenCheck \<notin> set (trace (snd (scrypt_getpowhash e args)))
       \<and> Malloc 32 \<notin> set (trace (snd (scrypt_getpowhash e args)))
       \<and> CoreCall \<notin> set (trace (snd (scrypt_getpowhash e args)))
       \<and> blocks (snd (scrypt_getpowhash e args)) = 0"
proof -
  from assms obtain x where x: "parse_args args = Inl x"
    by (auto simp: parse_ystar_None)
  show ?thesis
    using path_parse_failure [OF x, of e] x by simp
qed

theorem unparsable_argument_fails_first_witness:
  "parse_ystar [PyUnicode ''abc''] = None \<and> parse_ystar [] = None
   \<and> parse_ystar [PyBytes [1], PyLong 5] = None
   \<and> parse_ystar [PyMemoryView [1] True True] = None
   \<and> fst (scrypt_getpowhash (zero_env True True) [PyUnicode ''abc'']) = None
   \<and> exc (snd (scrypt_getpowhash (zero_env True True) [PyUnicode ''abc''])) = Some TypeError
   \<and> trace (snd (scrypt_getpowhash (zero_env True True) [PyUnicode ''abc''])) = [ParseArgs]
   \<and> trace (snd (scrypt_getpowhash (zero_env True True) [])) = [ParseArgs]
   \<and> trace (snd (scrypt_getpowhash (zero_env True True) [PyBytes [1], PyLong 5]))
       = [ParseArgs]
   \<and> exc (snd (scrypt_getpowhash (zero_env True True) [PyMemoryView [1] True True]))
       = Some ValueError"
proof -
  have a: "parse_ystar [PyUnicode ''abc''] = None" and b: "parse_ystar [] = None"
    and c: "parse_ystar [PyBytes [1], PyLong 5] = None"
    and d: "parse_ystar [PyMemoryView [1] True True] = None"
    by (simp_all add: parse_ystar_def parse_args_def)
  show ?thesis
    using a b c d
      unparsable_argument_fails_first [OF a, of "zero_env True True"]
      unparsable_argument_fails_first [OF b, of "zero_env True True"]
      unparsable_argument_fails_first [OF c, of "zero_env True True"]
      unparsable_argument_fails_first [OF d, of "zero_env True True"]
    by (simp add: parse_args_def)
qed

text \<open>
  Claim C10. Once the buffer has been acquired, every way out of the function (wrong
  length, failed allocation of the output block, failed or successful building of the
  result) has released it exactly once, leaving no export outstanding, and the argument
  objects are at return what they were at the call.
\<close>

theorem input_released_once_and_untouched:
  assumes "parse_ystar args = Some x"
  shows "count_list (trace (snd (scrypt_getpowhash e args))) Release = 1
       \<and> exports (snd (scrypt_getpowhash e args)) = 0
       \<and> objs (snd (scrypt_getpowhash e args)) = args"
proof (cases "length x = 80")
  case False
  then show ?thesis
    using path_wrong_length [OF assms False, of e] by simp
next
  case len: True
  show ?thesis
  proof (cases "malloc_ok e")
    case True
    then show ?thesis
      using path_core_called [OF assms len True] by simp
  next
    case False
    then show ?thesis
      using path_malloc_failure [OF assms len False] by simp
  qed
qed

theorem input_released_once_and_untouched_witness:
  "count_list (trace (snd (scrypt_getpowhash (zero_env True True) [PyBytes (replicate 79 0)])))
      Release = 1
   \<and> count_list (trace (snd (scrypt_getpowhash (zero_env False True) [PyBytes (replicate 80 0)])))
      Release = 1
   \<and> count_list (trace (snd (scrypt_getpowhash (zero_env True True) [PyBytes (replicate 80 0)])))
      Release = 1
   \<and> objs (snd (scrypt_getpowhash (zero_env True True) [PyBytes (replicate 80 0)]))
      = [PyBytes (replicate 80 0)]"
  using
    input_released_once_and_untouched
      [OF parse_ystar_bytes [of "replicate 79 0"], of "zero_env True True"]
    input_released_once_and_untouched
      [OF parse_ystar_bytes [of "replicate 80 0"], of "zero_env False True"]
    input_released_once_and_untouched
      [OF parse_ystar_bytes [of "replicate 80 0"], of "zero_env True True"]
  by simp

end
